theory Spec2Isabelle
  imports Complex_Main
begin

section \<open>Data model\<close>

text \<open>
  The three \<open>GameCanvas\<close> components of the repository are embedded side by side:
  \<^item> variant A: the side-to-side game with 80 pixel wide obstacles (jump rate 5, player in
    the vertical middle, collision check gated by wall side and jump state);
  \<^item> variant B: the side-to-side game whose obstacles are as wide as the wall (jump rate
    2.5, player at 70 percent of the height, collision check on every obstacle);
  \<^item> variant C: the climbing game without obstacles.

  JavaScript numbers are modelled as exact reals: rounding, NaN and the infinities of IEEE
  doubles are outside the model. The ambient values \<open>window.innerWidth\<close>,
  \<open>window.innerHeight\<close>, the frame's \<open>deltaTime\<close> and the draw of \<open>Math.random()\<close> are
  explicit parameters of the functions that read them.
\<close>

record Obstacle =
  ob_x :: real
  ob_y :: real
  ob_width :: real
  ob_height :: real
  ob_isOnLeftWall :: bool

text \<open>
  \<open>GameState_c\<close> is the interface \<open>GameState\<close> of variant C; the side-to-side variants
  extend it by the two obstacle fields, in the order of the source.
\<close>

record GameState_c =
  playerX :: real
  playerY :: real
  playerSize :: real
  wallWidth :: real
  speed :: real
  isOnLeftWall :: bool
  isJumping :: bool
  jumpProgress :: real
  timeElapsed :: real
  isGameOver :: bool

record GameState = GameState_c +
  obstacles :: "Obstacle list"
  lastObstacleTime :: real

section \<open>Variant A: 80 pixel obstacles\<close>

subsection \<open>Initial state, commands and restart\<close>

text \<open>The argument of \<open>useState\<close>; \<open>innerHeight\<close> is the window height at mount.\<close>

definition initialState :: "real \<Rightarrow> GameState" where
  "initialState innerHeight =
     \<lparr> playerX = 50, playerY = innerHeight / 2 - 15, playerSize = 30, wallWidth = 30,
       speed = 150, isOnLeftWall = True, isJumping = False, jumpProgress = 0,
       timeElapsed = 0, isGameOver = False, obstacles = [], lastObstacleTime = 0 \<rparr>"

text \<open>\<open>jump\<close> and \<open>returnToSameWall\<close> have the same body in the source.\<close>

definition jump :: "'a GameState_c_scheme \<Rightarrow> 'a GameState_c_scheme" where
  "jump prev = prev\<lparr> isJumping := True, jumpProgress := 0 \<rparr>"

definition returnToSameWall :: "'a GameState_c_scheme \<Rightarrow> 'a GameState_c_scheme" where
  "returnToSameWall prev = prev\<lparr> isJumping := True, jumpProgress := 0 \<rparr>"

definition restartGame :: "real \<Rightarrow> GameState \<Rightarrow> GameState" where
  "restartGame innerHeight old =
     \<lparr> playerX = 50, playerY = innerHeight / 2 - 15, playerSize = 30, wallWidth = 40,
       speed = 150, isOnLeftWall = True, isJumping = False, jumpProgress = 0,
       timeElapsed = 0, isGameOver = False, obstacles = [], lastObstacleTime = 0 \<rparr>"

text \<open>
  The test \<open>playerCenterX >= centerX - whiteLineWidth / 2 && playerCenterX <= centerX +
  whiteLineWidth / 2\<close>, with the width of the white line as a parameter.
\<close>

definition inWhiteLine :: "real \<Rightarrow> real \<Rightarrow> 'a GameState_c_scheme \<Rightarrow> bool" where
  "inWhiteLine whiteLineWidth innerWidth s =
     (playerX s + playerSize s / 2 \<ge> innerWidth / 2 - whiteLineWidth / 2 \<and>
      playerX s + playerSize s / 2 \<le> innerWidth / 2 + whiteLineWidth / 2)"

text \<open>
  The space key: a jump when resting, a return jump when in the air over the line. The
  handlers test \<open>gameState\<close>, the state of the rendering that registered them, while
  \<open>jump\<close> and \<open>returnToSameWall\<close> update the state \<open>prev\<close> that React holds at that
  moment; the two are separate arguments here.
\<close>

definition handleKeyDown :: "real \<Rightarrow> GameState \<Rightarrow> GameState \<Rightarrow> GameState" where
  "handleKeyDown innerWidth gameState prev =
     (if \<not> isJumping gameState then jump prev
      else if inWhiteLine 100 innerWidth gameState then returnToSameWall prev
      else prev)"

definition handleClick :: "GameState \<Rightarrow> GameState \<Rightarrow> GameState" where
  "handleClick gameState prev = (if \<not> isJumping gameState then jump prev else prev)"

subsection \<open>The frame update\<close>

text \<open>
  The resting coordinate of a wall, the expression \<open>left ? prev.wallWidth + 10 :
  window.innerWidth - prev.wallWidth - 10 - prev.playerSize\<close> of the source.
\<close>

definition wallX :: "real \<Rightarrow> 'a GameState_c_scheme \<Rightarrow> bool \<Rightarrow> real" where
  "wallX innerWidth prev left =
     (if left then wallWidth prev + 10
      else innerWidth - wallWidth prev - 10 - playerSize prev)"

text \<open>\<open>newJumpProgress\<close> after the block "Handle jumping animation".\<close>

definition newJumpProgress :: "real \<Rightarrow> 'a GameState_c_scheme \<Rightarrow> real" where
  "newJumpProgress deltaTime prev =
     (if isJumping prev then jumpProgress prev + deltaTime * 5 else jumpProgress prev)"

definition newIsJumping :: "real \<Rightarrow> 'a GameState_c_scheme \<Rightarrow> bool" where
  "newIsJumping deltaTime prev =
     (if isJumping prev then
        (if newJumpProgress deltaTime prev \<ge> 1 then False else isJumping prev)
      else isJumping prev)"

definition newIsOnLeftWall :: "real \<Rightarrow> real \<Rightarrow> GameState \<Rightarrow> bool" where
  "newIsOnLeftWall innerWidth deltaTime prev =
     (if isJumping prev then
        (if newJumpProgress deltaTime prev \<ge> 1 then
           (if inWhiteLine 100 innerWidth prev \<and> jumpProgress prev = 0
            then isOnLeftWall prev
            else \<not> isOnLeftWall prev)
         else isOnLeftWall prev)
      else isOnLeftWall prev)"

definition newX :: "real \<Rightarrow> real \<Rightarrow> GameState \<Rightarrow> real" where
  "newX innerWidth deltaTime prev =
     (if isJumping prev then
        (if newJumpProgress deltaTime prev \<ge> 1 then
           wallX innerWidth prev (newIsOnLeftWall innerWidth deltaTime prev)
         else
           (let startX = wallX innerWidth prev (isOnLeftWall prev);
                isReturningToSameWall =
                  (inWhiteLine 100 innerWidth prev \<and> jumpProgress prev = 0);
                endX = (if isReturningToSameWall then startX
                        else wallX innerWidth prev (\<not> isOnLeftWall prev))
            in startX + (endX - startX) * newJumpProgress deltaTime prev))
      else wallX innerWidth prev (isOnLeftWall prev))"

definition newY :: "real \<Rightarrow> 'a GameState_c_scheme \<Rightarrow> real" where
  "newY innerHeight prev = innerHeight / 2 - playerSize prev / 2"

definition obstacleSpawnRate :: "real \<Rightarrow> real" where
  "obstacleSpawnRate newTimeElapsed = max 0.3 (1.5 - newTimeElapsed * 0.1)"

text \<open>The test that guards the spawn and the update of \<open>lastObstacleTime\<close>.\<close>

definition spawnDue :: "real \<Rightarrow> GameState \<Rightarrow> bool" where
  "spawnDue deltaTime prev =
     (timeElapsed prev + deltaTime - lastObstacleTime prev
        > obstacleSpawnRate (timeElapsed prev + deltaTime))"

definition newObstacle :: "real \<Rightarrow> real \<Rightarrow> Obstacle" where
  "newObstacle innerWidth rnd =
     (let spawnOnLeft = (rnd < 0.5)
      in \<lparr> ob_x = (if spawnOnLeft then 0 else innerWidth - 80), ob_y = - 80,
           ob_width = 80, ob_height = 80, ob_isOnLeftWall = spawnOnLeft \<rparr>)"

text \<open>The list after \<open>newObstacles.push\<close>, before the obstacles move.\<close>

definition spawned :: "real \<Rightarrow> real \<Rightarrow> real \<Rightarrow> GameState \<Rightarrow> Obstacle list" where
  "spawned innerWidth deltaTime rnd prev =
     (if spawnDue deltaTime prev then obstacles prev @ [newObstacle innerWidth rnd]
      else obstacles prev)"

text \<open>The \<open>map\<close> and \<open>filter\<close> of "Update obstacle positions".\<close>

definition moveObstacles :: "real \<Rightarrow> real \<Rightarrow> Obstacle list \<Rightarrow> Obstacle list" where
  "moveObstacles innerHeight deltaTime obs =
     filter (\<lambda>obstacle. ob_y obstacle < innerHeight + 100)
       (map (\<lambda>obstacle. obstacle\<lparr> ob_y := ob_y obstacle + 200 * deltaTime \<rparr>) obs)"

text \<open>The four strict comparisons of the collision test of variant A.\<close>

definition boxesOverlap :: "real \<Rightarrow> real \<Rightarrow> real \<Rightarrow> Obstacle \<Rightarrow> bool" where
  "boxesOverlap px py psize obstacle =
     (px < ob_x obstacle + ob_width obstacle \<and>
      px + psize > ob_x obstacle \<and>
      py < ob_y obstacle + ob_height obstacle \<and>
      py + psize > ob_y obstacle)"

text \<open>The \<open>for\<close> loop over \<open>newObstacles\<close>, leaving at the first hit.\<close>

fun checkCollisions :: "GameState \<Rightarrow> real \<Rightarrow> real \<Rightarrow> Obstacle list \<Rightarrow> bool" where
  "checkCollisions prev px py [] = False"
| "checkCollisions prev px py (obstacle # rest) =
     (let playerOnSameWall =
            ((isOnLeftWall prev \<and> ob_isOnLeftWall obstacle) \<or>
             (\<not> isOnLeftWall prev \<and> \<not> ob_isOnLeftWall obstacle))
      in if playerOnSameWall \<and> \<not> isJumping prev then
           (if boxesOverlap px py (playerSize prev) obstacle then True
            else checkCollisions prev px py rest)
         else checkCollisions prev px py rest)"

text \<open>The state update inside \<open>gameLoop\<close> (the function passed to \<open>setGameState\<close>).\<close>

definition gameLoop :: "real \<Rightarrow> real \<Rightarrow> real \<Rightarrow> real \<Rightarrow> GameState \<Rightarrow> GameState" where
  "gameLoop innerWidth innerHeight deltaTime rnd prev =
     (if isGameOver prev then prev
      else
        prev\<lparr> playerX := newX innerWidth deltaTime prev,
              playerY := newY innerHeight prev,
              isOnLeftWall := newIsOnLeftWall innerWidth deltaTime prev,
              isJumping := newIsJumping deltaTime prev,
              jumpProgress := newJumpProgress deltaTime prev,
              timeElapsed := timeElapsed prev + deltaTime,
              obstacles :=
                moveObstacles innerHeight deltaTime (spawned innerWidth deltaTime rnd prev),
              lastObstacleTime :=
                (if spawnDue deltaTime prev then timeElapsed prev + deltaTime
                 else lastObstacleTime prev),
              isGameOver :=
                checkCollisions prev (newX innerWidth deltaTime prev) (newY innerHeight prev)
                  (moveObstacles innerHeight deltaTime
                     (spawned innerWidth deltaTime rnd prev)) \<rparr>)"

section \<open>Variant B: obstacles as wide as the wall\<close>

definition initialState_b :: "real \<Rightarrow> GameState" where
  "initialState_b innerHeight =
     \<lparr> playerX = 30, playerY = innerHeight * 0.7 - 15, playerSize = 30, wallWidth = 30,
       speed = 150, isOnLeftWall = True, isJumping = False, jumpProgress = 0,
       timeElapsed = 0, isGameOver = False, obstacles = [], lastObstacleTime = 0 \<rparr>"

definition restartGame_b :: "real \<Rightarrow> GameState \<Rightarrow> GameState" where
  "restartGame_b innerHeight old =
     \<lparr> playerX = 30, playerY = innerHeight * 0.7 - 15, playerSize = 30, wallWidth = 40,
       speed = 150, isOnLeftWall = True, isJumping = False, jumpProgress = 0,
       timeElapsed = 0, isGameOver = False, obstacles = [], lastObstacleTime = 0 \<rparr>"

text \<open>The key handler of variant B tests a white line of width 20.\<close>

definition handleKeyDown_b :: "real \<Rightarrow> GameState \<Rightarrow> GameState \<Rightarrow> GameState" where
  "handleKeyDown_b innerWidth gameState prev =
     (if \<not> isJumping gameState then jump prev
      else if inWhiteLine 20 innerWidth gameState then returnToSameWall prev
      else prev)"

definition wallX_b :: "real \<Rightarrow> GameState \<Rightarrow> bool \<Rightarrow> real" where
  "wallX_b innerWidth prev left =
     (if left then wallWidth prev else innerWidth - wallWidth prev - playerSize prev)"

definition newJumpProgress_b :: "real \<Rightarrow> GameState \<Rightarrow> real" where
  "newJumpProgress_b deltaTime prev =
     (if isJumping prev then jumpProgress prev + deltaTime * 2.5 else jumpProgress prev)"

definition newIsJumping_b :: "real \<Rightarrow> GameState \<Rightarrow> bool" where
  "newIsJumping_b deltaTime prev =
     (if isJumping prev then
        (if newJumpProgress_b deltaTime prev \<ge> 1 then False else isJumping prev)
      else isJumping prev)"

definition newIsOnLeftWall_b :: "real \<Rightarrow> real \<Rightarrow> GameState \<Rightarrow> bool" where
  "newIsOnLeftWall_b innerWidth deltaTime prev =
     (if isJumping prev then
        (if newJumpProgress_b deltaTime prev \<ge> 1 then
           (if inWhiteLine 100 innerWidth prev \<and> jumpProgress prev = 0
            then isOnLeftWall prev
            else \<not> isOnLeftWall prev)
         else isOnLeftWall prev)
      else isOnLeftWall prev)"

definition newX_b :: "real \<Rightarrow> real \<Rightarrow> GameState \<Rightarrow> real" where
  "newX_b innerWidth deltaTime prev =
     (if isJumping prev then
        (if newJumpProgress_b deltaTime prev \<ge> 1 then
           wallX_b innerWidth prev (newIsOnLeftWall_b innerWidth deltaTime prev)
         else
           (let startX = wallX_b innerWidth prev (isOnLeftWall prev);
                isReturningToSameWall =
                  (inWhiteLine 100 innerWidth prev \<and> jumpProgress prev = 0);
                endX = (if isReturningToSameWall then startX
                        else wallX_b innerWidth prev (\<not> isOnLeftWall prev))
            in startX + (endX - startX) * newJumpProgress_b deltaTime prev))
      else wallX_b innerWidth prev (isOnLeftWall prev))"

definition newY_b :: "real \<Rightarrow> GameState \<Rightarrow> real" where
  "newY_b innerHeight prev = innerHeight * 0.7 - playerSize prev / 2"

definition newObstacle_b :: "real \<Rightarrow> real \<Rightarrow> GameState \<Rightarrow> Obstacle" where
  "newObstacle_b innerWidth rnd prev =
     (let spawnOnLeft = (rnd < 0.5)
      in \<lparr> ob_x = (if spawnOnLeft then 0 else innerWidth - wallWidth prev), ob_y = - 80,
           ob_width = wallWidth prev, ob_height = 80, ob_isOnLeftWall = spawnOnLeft \<rparr>)"

definition spawned_b :: "real \<Rightarrow> real \<Rightarrow> real \<Rightarrow> GameState \<Rightarrow> Obstacle list" where
  "spawned_b innerWidth deltaTime rnd prev =
     (if spawnDue deltaTime prev then obstacles prev @ [newObstacle_b innerWidth rnd prev]
      else obstacles prev)"

text \<open>The four inclusive comparisons of the collision test of variant B.\<close>

definition boxesTouch :: "real \<Rightarrow> real \<Rightarrow> real \<Rightarrow> Obstacle \<Rightarrow> bool" where
  "boxesTouch px py psize obstacle =
     (px + psize \<ge> ob_x obstacle \<and>
      px \<le> ob_x obstacle + ob_width obstacle \<and>
      py + psize \<ge> ob_y obstacle \<and>
      py \<le> ob_y obstacle + ob_height obstacle)"

text \<open>
  The indexed \<open>for\<close> loop of variant B: every obstacle is tested, whatever its wall and
  whether or not the player is jumping.
\<close>

fun checkCollisions_b :: "GameState \<Rightarrow> real \<Rightarrow> real \<Rightarrow> Obstacle list \<Rightarrow> bool" where
  "checkCollisions_b prev px py [] = False"
| "checkCollisions_b prev px py (obstacle # rest) =
     (if boxesTouch px py (playerSize prev) obstacle then True
      else checkCollisions_b prev px py rest)"

definition gameLoop_b :: "real \<Rightarrow> real \<Rightarrow> real \<Rightarrow> real \<Rightarrow> GameState \<Rightarrow> GameState" where
  "gameLoop_b innerWidth innerHeight deltaTime rnd prev =
     (if isGameOver prev then prev
      else
        prev\<lparr> playerX := newX_b innerWidth deltaTime prev,
              playerY := newY_b innerHeight prev,
              isOnLeftWall := newIsOnLeftWall_b innerWidth deltaTime prev,
              isJumping := newIsJumping_b deltaTime prev,
              jumpProgress := newJumpProgress_b deltaTime prev,
              timeElapsed := timeElapsed prev + deltaTime,
              obstacles :=
                moveObstacles innerHeight deltaTime (spawned_b innerWidth deltaTime rnd prev),
              lastObstacleTime :=
                (if spawnDue deltaTime prev then timeElapsed prev + deltaTime
                 else lastObstacleTime prev),
              isGameOver :=
                (if \<not> isGameOver prev then
                   checkCollisions_b prev (newX_b innerWidth deltaTime prev)
                     (newY_b innerHeight prev)
                     (moveObstacles innerHeight deltaTime
                        (spawned_b innerWidth deltaTime rnd prev))
                 else isGameOver prev) \<rparr>)"

section \<open>Variant C: the climbing game\<close>

definition initialState_c :: "real \<Rightarrow> GameState_c" where
  "initialState_c innerHeight =
     \<lparr> playerX = 50, playerY = innerHeight - 200, playerSize = 30, wallWidth = 40,
       speed = 150, isOnLeftWall = True, isJumping = False, jumpProgress = 0,
       timeElapsed = 0, isGameOver = False \<rparr>"

definition restartGame_c :: "real \<Rightarrow> GameState_c \<Rightarrow> GameState_c" where
  "restartGame_c innerHeight old =
     \<lparr> playerX = 50, playerY = innerHeight - 200, playerSize = 30, wallWidth = 40,
       speed = 150, isOnLeftWall = True, isJumping = False, jumpProgress = 0,
       timeElapsed = 0, isGameOver = False \<rparr>"

text \<open>Key and click handlers of variant C have the same body.\<close>

definition handleAction_c :: "real \<Rightarrow> GameState_c \<Rightarrow> GameState_c \<Rightarrow> GameState_c" where
  "handleAction_c innerHeight gameState prev =
     (if \<not> isJumping gameState \<and> \<not> isGameOver gameState then jump prev
      else if isGameOver gameState then restartGame_c innerHeight prev
      else prev)"

definition gameLoop_c :: "real \<Rightarrow> real \<Rightarrow> GameState_c \<Rightarrow> GameState_c" where
  "gameLoop_c innerWidth deltaTime prev =
     (if isGameOver prev then prev
      else
        prev\<lparr> playerX :=
                (if isJumping prev then
                   (if newJumpProgress deltaTime prev \<ge> 1 then
                      wallX innerWidth prev (\<not> isOnLeftWall prev)
                    else
                      (let startX = wallX innerWidth prev (isOnLeftWall prev);
                           endX = wallX innerWidth prev (\<not> isOnLeftWall prev)
                       in startX + (endX - startX) * newJumpProgress deltaTime prev))
                 else wallX innerWidth prev (isOnLeftWall prev)),
              playerY := playerY prev - speed prev * deltaTime,
              isOnLeftWall :=
                (if isJumping prev \<and> newJumpProgress deltaTime prev \<ge> 1
                 then \<not> isOnLeftWall prev else isOnLeftWall prev),
              isJumping := newIsJumping deltaTime prev,
              jumpProgress := newJumpProgress deltaTime prev,
              timeElapsed := timeElapsed prev + deltaTime,
              isGameOver := (playerY prev - speed prev * deltaTime \<le> 0) \<rparr>)"

section \<open>Runs of variant A\<close>

text \<open>
  The mounted component: the state that React holds (\<open>current\<close>) and the state of the
  rendering whose effect registered the event handlers (\<open>captured\<close>). The effect has the
  dependency list \<open>[gameState.isJumping]\<close>, so the handlers are registered anew, with the
  state of the new rendering, exactly when \<open>isJumping\<close> has changed (the captured state
  always has the \<open>isJumping\<close> of the rendering before).
\<close>

record Component =
  captured :: GameState
  current :: GameState

definition mount :: "real \<Rightarrow> Component" where
  "mount innerHeight =
     \<lparr> captured = initialState innerHeight, current = initialState innerHeight \<rparr>"

definition render :: "Component \<Rightarrow> GameState \<Rightarrow> Component" where
  "render cp next =
     \<lparr> captured = (if isJumping next \<noteq> isJumping (captured cp) then next else captured cp),
       current = next \<rparr>"

text \<open>
  What can happen to the component: a frame (with the window size, the frame's delta time
  and the random draw it reads), the space key (with the window width the handler reads),
  a click or touch, and the restart button of the game-over dialog (with the window
  height). Frame timestamps do not decrease, and \<open>Math.random()\<close> is in \<open>[0, 1)\<close>.
  The dialog is shown only when the game is over; a restart is allowed in every state
  here, so the runs of the model include those of the component.
\<close>

datatype event =
  Tick real real real real
| KeyDown real
| Click
| Restart real

fun valid_event :: "event \<Rightarrow> bool" where
  "valid_event (Tick innerWidth innerHeight deltaTime rnd) =
     (0 \<le> deltaTime \<and> 0 \<le> rnd \<and> rnd < 1)"
| "valid_event (KeyDown innerWidth) = True"
| "valid_event Click = True"
| "valid_event (Restart innerHeight) = True"

fun is_tick :: "event \<Rightarrow> bool" where
  "is_tick (Tick innerWidth innerHeight deltaTime rnd) = True"
| "is_tick (KeyDown innerWidth) = False"
| "is_tick Click = False"
| "is_tick (Restart innerHeight) = False"

fun is_restart :: "event \<Rightarrow> bool" where
  "is_restart (Tick innerWidth innerHeight deltaTime rnd) = False"
| "is_restart (KeyDown innerWidth) = False"
| "is_restart Click = False"
| "is_restart (Restart innerHeight) = True"

fun next_state :: "event \<Rightarrow> Component \<Rightarrow> GameState" where
  "next_state (Tick innerWidth innerHeight deltaTime rnd) cp =
     gameLoop innerWidth innerHeight deltaTime rnd (current cp)"
| "next_state (KeyDown innerWidth) cp =
     handleKeyDown innerWidth (captured cp) (current cp)"
| "next_state Click cp = handleClick (captured cp) (current cp)"
| "next_state (Restart innerHeight) cp = restartGame innerHeight (current cp)"

definition apply_event :: "event \<Rightarrow> Component \<Rightarrow> Component" where
  "apply_event e cp = render cp (next_state e cp)"

fun run :: "event list \<Rightarrow> Component \<Rightarrow> Component" where
  "run [] cp = cp"
| "run (e # es) cp = run es (apply_event e cp)"

text \<open>
  The bounds that hold of \<open>jumpProgress\<close> along every run: it is never negative, and it
  is below 1 while the player is in the air.
\<close>

definition progress_ok :: "GameState \<Rightarrow> bool" where
  "progress_ok s = (0 \<le> jumpProgress s \<and> (isJumping s \<longrightarrow> jumpProgress s < 1))"

text \<open>
  What a game-over state keeps under frames, key presses and clicks: the fields of \<open>s'\<close>
  that agree with those of \<open>s\<close>.
\<close>

definition frozen_fields :: "GameState \<Rightarrow> GameState \<Rightarrow> bool" where
  "frozen_fields s s' =
     (isGameOver s' \<and> obstacles s' = obstacles s \<and> lastObstacleTime s' = lastObstacleTime s \<and>
      timeElapsed s' = timeElapsed s \<and> playerX s' = playerX s \<and> playerY s' = playerY s \<and>
      isOnLeftWall s' = isOnLeftWall s)"

section \<open>Basic facts about the frame update\<close>

lemma checkCollisions_iff:
  "checkCollisions prev px py obs \<longleftrightarrow>
     (\<not> isJumping prev \<and>
      (\<exists>ob \<in> set obs. ob_isOnLeftWall ob = isOnLeftWall prev \<and>
                       boxesOverlap px py (playerSize prev) ob))"
  by (induction obs) (auto simp: Let_def)

lemma checkCollisions_b_iff:
  "checkCollisions_b prev px py obs \<longleftrightarrow>
     (\<exists>ob \<in> set obs. boxesTouch px py (playerSize prev) ob)"
  by (induction obs) auto

lemma gameLoop_gameOver [simp]: "isGameOver prev \<Longrightarrow> gameLoop W H dt rnd prev = prev"
  by (simp add: gameLoop_def)

lemma gameLoop_b_gameOver [simp]: "isGameOver prev \<Longrightarrow> gameLoop_b W H dt rnd prev = prev"
  by (simp add: gameLoop_b_def)

lemma gameLoop_c_gameOver [simp]: "isGameOver prev \<Longrightarrow> gameLoop_c W dt prev = prev"
  by (simp add: gameLoop_c_def)

lemma gameLoop_fields:
  assumes "\<not> isGameOver prev"
  shows "playerX (gameLoop W H dt rnd prev) = newX W dt prev"
    and "playerY (gameLoop W H dt rnd prev) = newY H prev"
    and "isOnLeftWall (gameLoop W H dt rnd prev) = newIsOnLeftWall W dt prev"
    and "isJumping (gameLoop W H dt rnd prev) = newIsJumping dt prev"
    and "jumpProgress (gameLoop W H dt rnd prev) = newJumpProgress dt prev"
    and "timeElapsed (gameLoop W H dt rnd prev) = timeElapsed prev + dt"
    and "obstacles (gameLoop W H dt rnd prev) = moveObstacles H dt (spawned W dt rnd prev)"
    and "lastObstacleTime (gameLoop W H dt rnd prev) =
           (if spawnDue dt prev then timeElapsed prev + dt else lastObstacleTime prev)"
    and "isGameOver (gameLoop W H dt rnd prev) =
           checkCollisions prev (newX W dt prev) (newY H prev)
             (moveObstacles H dt (spawned W dt rnd prev))"
    and "playerSize (gameLoop W H dt rnd prev) = playerSize prev"
    and "wallWidth (gameLoop W H dt rnd prev) = wallWidth prev"
  using assms by (simp_all add: gameLoop_def)

lemma gameLoop_b_fields:
  assumes "\<not> isGameOver prev"
  shows "playerX (gameLoop_b W H dt rnd prev) = newX_b W dt prev"
    and "playerY (gameLoop_b W H dt rnd prev) = newY_b H prev"
    and "timeElapsed (gameLoop_b W H dt rnd prev) = timeElapsed prev + dt"
    and "obstacles (gameLoop_b W H dt rnd prev) = moveObstacles H dt (spawned_b W dt rnd prev)"
    and "isGameOver (gameLoop_b W H dt rnd prev) =
           checkCollisions_b prev (newX_b W dt prev) (newY_b H prev)
             (moveObstacles H dt (spawned_b W dt rnd prev))"
  using assms by (simp_all add: gameLoop_b_def)

lemma current_apply_event [simp]: "current (apply_event e cp) = next_state e cp"
  by (simp add: apply_event_def render_def)

lemma progress_ok_step:
  "valid_event e \<Longrightarrow> progress_ok (current cp) \<Longrightarrow> progress_ok (next_state e cp)"
proof (cases e)
  case (Tick W H dt rnd)
  assume v: "valid_event e" and ok: "progress_ok (current cp)"
  show ?thesis
  proof (cases "isGameOver (current cp)")
    case True
    with ok Tick show ?thesis by simp
  next
    case False
    with v ok Tick show ?thesis
      by (auto simp: progress_ok_def gameLoop_fields newJumpProgress_def newIsJumping_def)
  qed
next
  case (KeyDown W)
  assume "progress_ok (current cp)"
  with KeyDown show ?thesis
    by (simp add: progress_ok_def handleKeyDown_def jump_def returnToSameWall_def)
next
  case Click
  assume "progress_ok (current cp)"
  with Click show ?thesis by (simp add: progress_ok_def handleClick_def jump_def)
next
  case (Restart H)
  then show ?thesis by (simp add: progress_ok_def restartGame_def)
qed

lemma progress_ok_run:
  "list_all valid_event evs \<Longrightarrow> progress_ok (current cp) \<Longrightarrow>
   progress_ok (current (run evs cp))"
  by (induction evs arbitrary: cp) (simp_all add: progress_ok_step)

lemma frozen_fields_step:
  "\<not> is_restart e \<Longrightarrow> frozen_fields s (current cp) \<Longrightarrow> frozen_fields s (next_state e cp)"
  by (cases e)
     (auto simp: frozen_fields_def handleKeyDown_def handleClick_def jump_def returnToSameWall_def)

lemma frozen_fields_run:
  "list_all (\<lambda>e. \<not> is_restart e) evs \<Longrightarrow> frozen_fields s (current cp) \<Longrightarrow>
   frozen_fields s (current (run evs cp))"
  by (induction evs arbitrary: cp) (simp_all add: frozen_fields_step)

lemma ticks_run_gameOver:
  "list_all is_tick evs \<Longrightarrow> isGameOver (current cp) \<Longrightarrow>
   current (run evs cp) = current cp"
proof (induction evs arbitrary: cp)
  case Nil
  then show ?case by simp
next
  case (Cons e evs)
  then show ?case by (cases e) simp_all
qed

lemma moveObstacles_append:
  "moveObstacles H dt (xs @ ys) = moveObstacles H dt xs @ moveObstacles H dt ys"
  by (simp add: moveObstacles_def)

lemma moveObstacles_new:
  "moveObstacles H dt [newObstacle W rnd] =
     (if - 80 + 200 * dt < H + 100 then [(newObstacle W rnd)\<lparr> ob_y := - 80 + 200 * dt \<rparr>] else [])"
  by (simp add: moveObstacles_def newObstacle_def Let_def)

lemma restart_c_is_initial: "restartGame_c H c = initialState_c H"
  by (simp add: restartGame_c_def initialState_c_def)

lemma jump_in_progress_lands_opposite:
  assumes "\<not> isGameOver prev" and "isJumping prev" and "jumpProgress prev \<noteq> 0"
    and "newJumpProgress dt prev \<ge> 1"
  shows "isOnLeftWall (gameLoop W H dt rnd prev) = (\<not> isOnLeftWall prev) \<and>
         playerX (gameLoop W H dt rnd prev) = wallX W prev (\<not> isOnLeftWall prev)"
  using assms by (simp add: gameLoop_fields newIsOnLeftWall_def newX_def)

lemma jump_c_lands_opposite:
  assumes "\<not> isGameOver prev" and "isJumping prev" and "newJumpProgress dt prev \<ge> 1"
  shows "isOnLeftWall (gameLoop_c W dt prev) = (\<not> isOnLeftWall prev) \<and>
         playerX (gameLoop_c W dt prev) = wallX W prev (\<not> isOnLeftWall prev)"
  using assms by (simp add: gameLoop_c_def)

section \<open>Same-wall return jumps\<close>

text \<open>
  Claim C1. A same-wall return jump, started by the space key while the player is in the
  air with its centre over the white line, should resolve with \<open>isOnLeftWall\<close> as it was
  before the jump. The frame update recognises a return jump only in a frame whose previous
  state has \<open>jumpProgress = 0\<close> and its centre over the line. In the run below (window 200
  by 600, so that the line \<open>[50, 150]\<close> covers the centre 55 of the player at the left
  wall, for the handler as for the frame update) the player jumps from the left wall and a
  frame of 0.1 s passes; the space key is then accepted as \<open>returnToSameWall\<close>. The next
  frame keeps the player at the left wall's coordinate with progress 0.5; the frame after
  that resolves the jump, finds the progress nonzero, and puts the player on the right wall.
\<close>

theorem return_jump_lands_on_opposite_wall:
  "run [Tick 200 600 0 (7 / 10), KeyDown 200, Tick 200 600 (1 / 10) (7 / 10)] (mount 600) =
     \<lparr> captured =
         \<lparr> playerX = 40, playerY = 285, playerSize = 30, wallWidth = 30, speed = 150,
           isOnLeftWall = True, isJumping = True, jumpProgress = 0, timeElapsed = 0,
           isGameOver = False, obstacles = [], lastObstacleTime = 0 \<rparr>,
       current =
         \<lparr> playerX = 40, playerY = 285, playerSize = 30, wallWidth = 30, speed = 150,
           isOnLeftWall = True, isJumping = True, jumpProgress = 1 / 2, timeElapsed = 1 / 10,
           isGameOver = False, obstacles = [], lastObstacleTime = 0 \<rparr> \<rparr> \<and>
   inWhiteLine 100 200
     \<lparr> playerX = 40, playerY = 285, playerSize = 30, wallWidth = 30, speed = 150,
       isOnLeftWall = True, isJumping = True, jumpProgress = 0, timeElapsed = 0,
       isGameOver = False, obstacles = [], lastObstacleTime = 0 \<rparr> \<and>
   inWhiteLine 100 200
     \<lparr> playerX = 40, playerY = 285, playerSize = 30, wallWidth = 30, speed = 150,
       isOnLeftWall = True, isJumping = True, jumpProgress = 1 / 2, timeElapsed = 1 / 10,
       isGameOver = False, obstacles = [], lastObstacleTime = 0 \<rparr> \<and>
   handleKeyDown 200
     \<lparr> playerX = 40, playerY = 285, playerSize = 30, wallWidth = 30, speed = 150,
       isOnLeftWall = True, isJumping = True, jumpProgress = 0, timeElapsed = 0,
       isGameOver = False, obstacles = [], lastObstacleTime = 0 \<rparr>
     \<lparr> playerX = 40, playerY = 285, playerSize = 30, wallWidth = 30, speed = 150,
       isOnLeftWall = True, isJumping = True, jumpProgress = 1 / 2, timeElapsed = 1 / 10,
       isGameOver = False, obstacles = [], lastObstacleTime = 0 \<rparr> =
     returnToSameWall
     \<lparr> playerX = 40, playerY = 285, playerSize = 30, wallWidth = 30, speed = 150,
       isOnLeftWall = True, isJumping = True, jumpProgress = 1 / 2, timeElapsed = 1 / 10,
       isGameOver = False, obstacles = [], lastObstacleTime = 0 \<rparr> \<and>
   current (run [Tick 200 600 0 (7 / 10), KeyDown 200, Tick 200 600 (1 / 10) (7 / 10),
                 KeyDown 200, Tick 200 600 (1 / 10) (7 / 10)] (mount 600)) =
     \<lparr> playerX = 40, playerY = 285, playerSize = 30, wallWidth = 30, speed = 150,
       isOnLeftWall = True, isJumping = True, jumpProgress = 1 / 2, timeElapsed = 1 / 5,
       isGameOver = False, obstacles = [], lastObstacleTime = 0 \<rparr> \<and>
   current (run [Tick 200 600 0 (7 / 10), KeyDown 200, Tick 200 600 (1 / 10) (7 / 10),
                 KeyDown 200, Tick 200 600 (1 / 10) (7 / 10),
                 Tick 200 600 (1 / 10) (7 / 10)] (mount 600)) =
     \<lparr> playerX = 130, playerY = 285, playerSize = 30, wallWidth = 30, speed = 150,
       isOnLeftWall = False, isJumping = False, jumpProgress = 1, timeElapsed = 3 / 10,
       isGameOver = False, obstacles = [], lastObstacleTime = 0 \<rparr>"
  by (simp add: mount_def apply_event_def render_def initialState_def gameLoop_def
      handleKeyDown_def jump_def returnToSameWall_def
      newX_def newY_def newIsOnLeftWall_def newIsJumping_def
      newJumpProgress_def wallX_def inWhiteLine_def spawned_def spawnDue_def obstacleSpawnRate_def
      moveObstacles_def Let_def)

text \<open>
  The same happens in a window 800 wide when the key handler is given the state of the
  moment rather than the one its rendering captured: the player is over the line at 385
  after one frame, the return jump is accepted, the next frame takes the player back to
  40, and the resolving frame lands it on the right wall at 730.
\<close>

lemma return_jump_flips_in_wide_window:
  "gameLoop 800 600 (1 / 10) (7 / 10) (handleKeyDown 800 (initialState 600) (initialState 600)) =
     \<lparr> playerX = 385, playerY = 285, playerSize = 30, wallWidth = 30, speed = 150,
       isOnLeftWall = True, isJumping = True, jumpProgress = 1 / 2, timeElapsed = 1 / 10,
       isGameOver = False, obstacles = [], lastObstacleTime = 0 \<rparr> \<and>
   inWhiteLine 100 800
     \<lparr> playerX = 385, playerY = 285, playerSize = 30, wallWidth = 30, speed = 150,
       isOnLeftWall = True, isJumping = True, jumpProgress = 1 / 2, timeElapsed = 1 / 10,
       isGameOver = False, obstacles = [], lastObstacleTime = 0 \<rparr> \<and>
   handleKeyDown 800
     \<lparr> playerX = 385, playerY = 285, playerSize = 30, wallWidth = 30, speed = 150,
       isOnLeftWall = True, isJumping = True, jumpProgress = 1 / 2, timeElapsed = 1 / 10,
       isGameOver = False, obstacles = [], lastObstacleTime = 0 \<rparr>
     \<lparr> playerX = 385, playerY = 285, playerSize = 30, wallWidth = 30, speed = 150,
       isOnLeftWall = True, isJumping = True, jumpProgress = 1 / 2, timeElapsed = 1 / 10,
       isGameOver = False, obstacles = [], lastObstacleTime = 0 \<rparr> =
     returnToSameWall
     \<lparr> playerX = 385, playerY = 285, playerSize = 30, wallWidth = 30, speed = 150,
       isOnLeftWall = True, isJumping = True, jumpProgress = 1 / 2, timeElapsed = 1 / 10,
       isGameOver = False, obstacles = [], lastObstacleTime = 0 \<rparr> \<and>
   gameLoop 800 600 (1 / 10) (7 / 10)
     (returnToSameWall
     \<lparr> playerX = 385, playerY = 285, playerSize = 30, wallWidth = 30, speed = 150,
       isOnLeftWall = True, isJumping = True, jumpProgress = 1 / 2, timeElapsed = 1 / 10,
       isGameOver = False, obstacles = [], lastObstacleTime = 0 \<rparr>) =
     \<lparr> playerX = 40, playerY = 285, playerSize = 30, wallWidth = 30, speed = 150,
       isOnLeftWall = True, isJumping = True, jumpProgress = 1 / 2, timeElapsed = 1 / 5,
       isGameOver = False, obstacles = [], lastObstacleTime = 0 \<rparr> \<and>
   gameLoop 800 600 (1 / 10) (7 / 10)
     \<lparr> playerX = 40, playerY = 285, playerSize = 30, wallWidth = 30, speed = 150,
       isOnLeftWall = True, isJumping = True, jumpProgress = 1 / 2, timeElapsed = 1 / 5,
       isGameOver = False, obstacles = [], lastObstacleTime = 0 \<rparr> =
     \<lparr> playerX = 730, playerY = 285, playerSize = 30, wallWidth = 30, speed = 150,
       isOnLeftWall = False, isJumping = False, jumpProgress = 1, timeElapsed = 3 / 10,
       isGameOver = False, obstacles = [], lastObstacleTime = 0 \<rparr>"
  by (simp add: initialState_def gameLoop_def handleKeyDown_def jump_def returnToSameWall_def
      newX_def newY_def newIsOnLeftWall_def newIsJumping_def
      newJumpProgress_def wallX_def inWhiteLine_def spawned_def spawnDue_def obstacleSpawnRate_def
      moveObstacles_def Let_def)

section \<open>Obstacles on the other wall\<close>

text \<open>
  Claim C2, as amended. In variant A a frame sets \<open>isGameOver\<close> exactly when the player
  was not jumping and some obstacle of the player's own wall overlaps the player's box, so
  an obstacle on the other wall never ends the game, wherever it is. (Variant B tests every
  obstacle, whatever its wall.)
\<close>

theorem game_over_only_by_same_wall_obstacle:
  assumes "\<not> isGameOver prev"
  shows "isGameOver (gameLoop W H dt rnd prev) \<longleftrightarrow>
           \<not> isJumping prev \<and>
           (\<exists>ob \<in> set (obstacles (gameLoop W H dt rnd prev)).
              ob_isOnLeftWall ob = isOnLeftWall prev \<and>
              ob_isOnLeftWall ob = isOnLeftWall (gameLoop W H dt rnd prev) \<and>
              boxesOverlap (playerX (gameLoop W H dt rnd prev)) (playerY (gameLoop W H dt rnd prev))
                (playerSize (gameLoop W H dt rnd prev)) ob)"
  using assms
  by (auto simp: gameLoop_fields checkCollisions_iff newIsOnLeftWall_def)

text \<open>
  A window 120 wide: an obstacle of the right wall overlaps the box of the player resting
  on the left wall, and the game goes on.
\<close>

theorem game_over_only_by_same_wall_obstacle_witness:
  "\<not> isGameOver ((initialState 600)\<lparr> obstacles :=
       [\<lparr> ob_x = 40, ob_y = 280, ob_width = 80, ob_height = 80, ob_isOnLeftWall = False \<rparr>] \<rparr>) \<and>
   gameLoop 120 600 (1 / 100) (7 / 10) ((initialState 600)\<lparr> obstacles :=
       [\<lparr> ob_x = 40, ob_y = 280, ob_width = 80, ob_height = 80, ob_isOnLeftWall = False \<rparr>] \<rparr>) =
     \<lparr> playerX = 40, playerY = 285, playerSize = 30, wallWidth = 30, speed = 150,
       isOnLeftWall = True, isJumping = False, jumpProgress = 0, timeElapsed = 1 / 100,
       isGameOver = False,
       obstacles = [\<lparr> ob_x = 40, ob_y = 282, ob_width = 80, ob_height = 80, ob_isOnLeftWall = False \<rparr>],
       lastObstacleTime = 0 \<rparr> \<and>
   boxesOverlap 40 285 30
     \<lparr> ob_x = 40, ob_y = 282, ob_width = 80, ob_height = 80, ob_isOnLeftWall = False \<rparr>"
  using game_over_only_by_same_wall_obstacle
    [where prev = "(initialState 600)\<lparr> obstacles :=
       [\<lparr> ob_x = 40, ob_y = 280, ob_width = 80, ob_height = 80, ob_isOnLeftWall = False \<rparr>] \<rparr>"
       and W = 120 and H = 600 and dt = "1 / 100" and rnd = "7 / 10"]
  by (simp add: initialState_def gameLoop_def newX_def newY_def newIsOnLeftWall_def newIsJumping_def
      newJumpProgress_def wallX_def inWhiteLine_def spawned_def spawnDue_def obstacleSpawnRate_def
      moveObstacles_def boxesOverlap_def Let_def)

text \<open>
  Claim C2 as stated fails in variant B, whose collision test ignores the wall. First run:
  an obstacle spawns on the right wall of a window 400 by 800 (at 370); the window becomes
  800 by 400; the player jumps from the left wall and, half way (at 385, still with
  \<open>isOnLeftWall\<close>), meets the obstacle: game over. Second run: in a window 90 wide the
  player resting on the left wall touches an obstacle of the right wall.
\<close>

theorem opposite_wall_obstacle_ends_game_b_counterexample:
  "gameLoop_b 400 800 (7 / 5) (7 / 10) (initialState_b 800) =
     \<lparr> playerX = 30, playerY = 545, playerSize = 30, wallWidth = 30, speed = 150,
       isOnLeftWall = True, isJumping = False, jumpProgress = 0, timeElapsed = 7 / 5,
       isGameOver = False,
       obstacles = [\<lparr> ob_x = 370, ob_y = 200, ob_width = 30, ob_height = 80, ob_isOnLeftWall = False \<rparr>],
       lastObstacleTime = 7 / 5 \<rparr> \<and>
   handleKeyDown_b 800 (initialState_b 800)
     \<lparr> playerX = 30, playerY = 545, playerSize = 30, wallWidth = 30, speed = 150,
       isOnLeftWall = True, isJumping = False, jumpProgress = 0, timeElapsed = 7 / 5,
       isGameOver = False,
       obstacles = [\<lparr> ob_x = 370, ob_y = 200, ob_width = 30, ob_height = 80, ob_isOnLeftWall = False \<rparr>],
       lastObstacleTime = 7 / 5 \<rparr> =
     \<lparr> playerX = 30, playerY = 545, playerSize = 30, wallWidth = 30, speed = 150,
       isOnLeftWall = True, isJumping = True, jumpProgress = 0, timeElapsed = 7 / 5,
       isGameOver = False,
       obstacles = [\<lparr> ob_x = 370, ob_y = 200, ob_width = 30, ob_height = 80, ob_isOnLeftWall = False \<rparr>],
       lastObstacleTime = 7 / 5 \<rparr> \<and>
   gameLoop_b 800 400 (1 / 5) (7 / 10)
     \<lparr> playerX = 30, playerY = 545, playerSize = 30, wallWidth = 30, speed = 150,
       isOnLeftWall = True, isJumping = True, jumpProgress = 0, timeElapsed = 7 / 5,
       isGameOver = False,
       obstacles = [\<lparr> ob_x = 370, ob_y = 200, ob_width = 30, ob_height = 80, ob_isOnLeftWall = False \<rparr>],
       lastObstacleTime = 7 / 5 \<rparr> =
     \<lparr> playerX = 385, playerY = 265, playerSize = 30, wallWidth = 30, speed = 150,
       isOnLeftWall = True, isJumping = True, jumpProgress = 1 / 2, timeElapsed = 8 / 5,
       isGameOver = True,
       obstacles = [\<lparr> ob_x = 370, ob_y = 240, ob_width = 30, ob_height = 80, ob_isOnLeftWall = False \<rparr>],
       lastObstacleTime = 7 / 5 \<rparr> \<and>
   gameLoop_b 90 600 (21 / 10) (7 / 10) (initialState_b 600) =
     \<lparr> playerX = 30, playerY = 405, playerSize = 30, wallWidth = 30, speed = 150,
       isOnLeftWall = True, isJumping = False, jumpProgress = 0, timeElapsed = 21 / 10,
       isGameOver = True,
       obstacles = [\<lparr> ob_x = 60, ob_y = 340, ob_width = 30, ob_height = 80, ob_isOnLeftWall = False \<rparr>],
       lastObstacleTime = 21 / 10 \<rparr>"
  by (simp add: initialState_b_def gameLoop_b_def handleKeyDown_b_def jump_def
      newX_b_def newY_b_def newIsOnLeftWall_b_def newIsJumping_b_def newObstacle_b_def
      newJumpProgress_b_def wallX_b_def inWhiteLine_def spawned_b_def spawnDue_def obstacleSpawnRate_def
      moveObstacles_def boxesTouch_def Let_def)

section \<open>Game over is terminal\<close>

text \<open>
  What does hold once \<open>isGameOver\<close> is true: in all three variants the frame update
  returns the state itself, so any number of frames leaves the state as it is; and under
  frames, key presses and clicks (anything but a restart) the state of variant A stays game
  over with the same obstacles, spawn time, elapsed time and player position.
\<close>

lemma game_over_freezes_fields:
  assumes "isGameOver (current cp)" and "isGameOver c"
  shows "gameLoop W H dt rnd (current cp) = current cp \<and>
         gameLoop_b W H dt rnd (current cp) = current cp \<and>
         gameLoop_c W dt c = c \<and>
         gameLoop W' H' dt' rnd' (gameLoop W H dt rnd (current cp)) =
           gameLoop W H dt rnd (current cp) \<and>
         (list_all is_tick ticks \<longrightarrow> current (run ticks cp) = current cp) \<and>
         (list_all (\<lambda>e. \<not> is_restart e) evs \<longrightarrow>
            isGameOver (current (run evs cp)) \<and>
            obstacles (current (run evs cp)) = obstacles (current cp) \<and>
            lastObstacleTime (current (run evs cp)) = lastObstacleTime (current cp) \<and>
            timeElapsed (current (run evs cp)) = timeElapsed (current cp) \<and>
            playerX (current (run evs cp)) = playerX (current cp) \<and>
            playerY (current (run evs cp)) = playerY (current cp))"
proof -
  from assms have "frozen_fields (current cp) (current cp)"
    by (simp add: frozen_fields_def)
  then have "list_all (\<lambda>e. \<not> is_restart e) evs \<Longrightarrow>
      frozen_fields (current cp) (current (run evs cp))"
    by (simp add: frozen_fields_run)
  with assms show ?thesis
    by (simp add: ticks_run_gameOver frozen_fields_def)
qed

text \<open>
  The handlers of variant A test \<open>isJumping\<close> only: on a state at rest they call
  \<open>jump\<close>, game over or not. The handlers of variant C test \<open>isGameOver\<close> too, and
  restart the game instead.
\<close>

lemma handlers_have_no_game_over_gate:
  assumes "\<not> isJumping gameState"
  shows "handleKeyDown W gameState prev = prev\<lparr> isJumping := True, jumpProgress := 0 \<rparr> \<and>
         handleClick gameState prev = prev\<lparr> isJumping := True, jumpProgress := 0 \<rparr> \<and>
         handleKeyDown_b W gameState prev = prev\<lparr> isJumping := True, jumpProgress := 0 \<rparr>"
  using assms by (simp add: handleKeyDown_def handleClick_def handleKeyDown_b_def jump_def)

lemma handleAction_c_game_over:
  "isGameOver gameState \<Longrightarrow> handleAction_c H gameState prev = restartGame_c H prev"
  by (simp add: handleAction_c_def)

text \<open>
  Claim C3. Once \<open>isGameOver\<close> is true no state update should change the state until a
  restart. The frame update is the identity there, but the key and click handlers of
  variant A are not: in the run below (window 800 by 600) an obstacle spawns on the left
  wall in a frame of 1.4 s and reaches the resting player in the next frame, which ends
  the game after 1.5 s. The space key, or a click, then calls \<open>jump\<close> on the game-over
  state and sets \<open>isJumping\<close>; the following frame keeps that state.
\<close>

theorem key_press_changes_game_over_state:
  "current (run [Tick 800 600 0 (7 / 10), Tick 800 600 (7 / 5) (1 / 5),
                 Tick 800 600 (1 / 10) (1 / 5)] (mount 600)) =
     \<lparr> playerX = 40, playerY = 285, playerSize = 30, wallWidth = 30, speed = 150,
       isOnLeftWall = True, isJumping = False, jumpProgress = 0, timeElapsed = 3 / 2,
       isGameOver = True,
       obstacles = [\<lparr> ob_x = 0, ob_y = 220, ob_width = 80, ob_height = 80,
                     ob_isOnLeftWall = True \<rparr>],
       lastObstacleTime = 7 / 5 \<rparr> \<and>
   current (run [Tick 800 600 0 (7 / 10), Tick 800 600 (7 / 5) (1 / 5),
                 Tick 800 600 (1 / 10) (1 / 5), KeyDown 800] (mount 600)) =
     \<lparr> playerX = 40, playerY = 285, playerSize = 30, wallWidth = 30, speed = 150,
       isOnLeftWall = True, isJumping = True, jumpProgress = 0, timeElapsed = 3 / 2,
       isGameOver = True,
       obstacles = [\<lparr> ob_x = 0, ob_y = 220, ob_width = 80, ob_height = 80,
                     ob_isOnLeftWall = True \<rparr>],
       lastObstacleTime = 7 / 5 \<rparr> \<and>
   current (run [Tick 800 600 0 (7 / 10), Tick 800 600 (7 / 5) (1 / 5),
                 Tick 800 600 (1 / 10) (1 / 5), Click] (mount 600)) =
     \<lparr> playerX = 40, playerY = 285, playerSize = 30, wallWidth = 30, speed = 150,
       isOnLeftWall = True, isJumping = True, jumpProgress = 0, timeElapsed = 3 / 2,
       isGameOver = True,
       obstacles = [\<lparr> ob_x = 0, ob_y = 220, ob_width = 80, ob_height = 80,
                     ob_isOnLeftWall = True \<rparr>],
       lastObstacleTime = 7 / 5 \<rparr> \<and>
   current (run [Tick 800 600 0 (7 / 10), Tick 800 600 (7 / 5) (1 / 5),
                 Tick 800 600 (1 / 10) (1 / 5), KeyDown 800,
                 Tick 800 600 (1 / 10) (1 / 5)] (mount 600)) =
     \<lparr> playerX = 40, playerY = 285, playerSize = 30, wallWidth = 30, speed = 150,
       isOnLeftWall = True, isJumping = True, jumpProgress = 0, timeElapsed = 3 / 2,
       isGameOver = True,
       obstacles = [\<lparr> ob_x = 0, ob_y = 220, ob_width = 80, ob_height = 80,
                     ob_isOnLeftWall = True \<rparr>],
       lastObstacleTime = 7 / 5 \<rparr>"
  by (simp add: mount_def apply_event_def render_def initialState_def gameLoop_def
      handleKeyDown_def handleClick_def jump_def
      newX_def newY_def newIsOnLeftWall_def newIsJumping_def newJumpProgress_def wallX_def
      inWhiteLine_def spawned_def spawnDue_def obstacleSpawnRate_def newObstacle_def
      moveObstacles_def boxesOverlap_def Let_def)

section \<open>Collisions\<close>

text \<open>
  Claim C4, as amended. A frame that starts with the player at rest sets \<open>isGameOver\<close>
  when an obstacle of the player's wall, after its move, overlaps the player's box with all
  four strict comparisons (variant A); in variant B every obstacle that overlaps or touches
  the box ends the game, whatever its wall and the jump state. A strict overlap is a
  touch, so a strict overlap ends the game in both variants.
\<close>

theorem overlap_sets_game_over:
  "(\<not> isGameOver prev \<and> \<not> isJumping prev \<and>
    ob \<in> set (obstacles (gameLoop W H dt rnd prev)) \<and>
    ob_isOnLeftWall ob = isOnLeftWall prev \<and>
    boxesOverlap (playerX (gameLoop W H dt rnd prev)) (playerY (gameLoop W H dt rnd prev))
      (playerSize prev) ob
    \<longrightarrow> isGameOver (gameLoop W H dt rnd prev)) \<and>
   (\<not> isGameOver prev \<and>
    ob \<in> set (obstacles (gameLoop_b W H dt rnd prev)) \<and>
    boxesTouch (playerX (gameLoop_b W H dt rnd prev)) (playerY (gameLoop_b W H dt rnd prev))
      (playerSize prev) ob
    \<longrightarrow> isGameOver (gameLoop_b W H dt rnd prev)) \<and>
   (boxesOverlap px py psize ob \<longrightarrow> boxesTouch px py psize ob)"
  by (auto simp: gameLoop_fields gameLoop_b_fields checkCollisions_iff checkCollisions_b_iff
      boxesOverlap_def boxesTouch_def)

text \<open>
  The scenario of the specification in both variants: player box (40, 300, 30, 30),
  obstacle box (40, 300, 80, 80) on the same wall after the move.
\<close>

theorem overlap_sets_game_over_witness:
  "\<not> isGameOver ((initialState 630)\<lparr> obstacles :=
       [\<lparr> ob_x = 40, ob_y = 280, ob_width = 80, ob_height = 80, ob_isOnLeftWall = True \<rparr>] \<rparr>) \<and>
   \<not> isJumping ((initialState 630)\<lparr> obstacles :=
       [\<lparr> ob_x = 40, ob_y = 280, ob_width = 80, ob_height = 80, ob_isOnLeftWall = True \<rparr>] \<rparr>) \<and>
   gameLoop 800 630 (1 / 10) (7 / 10) ((initialState 630)\<lparr> obstacles :=
       [\<lparr> ob_x = 40, ob_y = 280, ob_width = 80, ob_height = 80, ob_isOnLeftWall = True \<rparr>] \<rparr>) =
     \<lparr> playerX = 40, playerY = 300, playerSize = 30, wallWidth = 30, speed = 150,
       isOnLeftWall = True, isJumping = False, jumpProgress = 0, timeElapsed = 1 / 10,
       isGameOver = True,
       obstacles = [\<lparr> ob_x = 40, ob_y = 300, ob_width = 80, ob_height = 80, ob_isOnLeftWall = True \<rparr>],
       lastObstacleTime = 0 \<rparr> \<and>
   boxesOverlap 40 300 30
     \<lparr> ob_x = 40, ob_y = 300, ob_width = 80, ob_height = 80, ob_isOnLeftWall = True \<rparr> \<and>
   \<not> isGameOver ((restartGame_b 450 (initialState_b 450))\<lparr> obstacles :=
       [\<lparr> ob_x = 40, ob_y = 280, ob_width = 80, ob_height = 80, ob_isOnLeftWall = True \<rparr>] \<rparr>) \<and>
   gameLoop_b 800 450 (1 / 10) (7 / 10) ((restartGame_b 450 (initialState_b 450))\<lparr> obstacles :=
       [\<lparr> ob_x = 40, ob_y = 280, ob_width = 80, ob_height = 80, ob_isOnLeftWall = True \<rparr>] \<rparr>) =
     \<lparr> playerX = 40, playerY = 300, playerSize = 30, wallWidth = 40, speed = 150,
       isOnLeftWall = True, isJumping = False, jumpProgress = 0, timeElapsed = 1 / 10,
       isGameOver = True,
       obstacles = [\<lparr> ob_x = 40, ob_y = 300, ob_width = 80, ob_height = 80, ob_isOnLeftWall = True \<rparr>],
       lastObstacleTime = 0 \<rparr> \<and>
   boxesTouch 40 300 30
     \<lparr> ob_x = 40, ob_y = 300, ob_width = 80, ob_height = 80, ob_isOnLeftWall = True \<rparr>"
  using overlap_sets_game_over
    [where prev = "(initialState 630)\<lparr> obstacles :=
       [\<lparr> ob_x = 40, ob_y = 280, ob_width = 80, ob_height = 80, ob_isOnLeftWall = True \<rparr>] \<rparr>"
       and W = 800 and H = 630 and dt = "1 / 10" and rnd = "7 / 10" and px = 40 and py = 300
       and psize = 30
       and ob = "\<lparr> ob_x = 40, ob_y = 300, ob_width = 80, ob_height = 80, ob_isOnLeftWall = True \<rparr>"]
    overlap_sets_game_over
    [where prev = "(restartGame_b 450 (initialState_b 450))\<lparr> obstacles :=
       [\<lparr> ob_x = 40, ob_y = 280, ob_width = 80, ob_height = 80, ob_isOnLeftWall = True \<rparr>] \<rparr>"
       and W = 800 and H = 450 and dt = "1 / 10" and rnd = "7 / 10" and px = 40 and py = 300
       and psize = 30
       and ob = "\<lparr> ob_x = 40, ob_y = 300, ob_width = 80, ob_height = 80, ob_isOnLeftWall = True \<rparr>"]
  by (simp add: initialState_def initialState_b_def restartGame_b_def gameLoop_def gameLoop_b_def
      newX_def newY_def newIsOnLeftWall_def newIsJumping_def newJumpProgress_def wallX_def
      newX_b_def newY_b_def newIsOnLeftWall_b_def newIsJumping_b_def newJumpProgress_b_def wallX_b_def
      inWhiteLine_def spawned_def spawned_b_def spawnDue_def obstacleSpawnRate_def
      moveObstacles_def boxesOverlap_def boxesTouch_def Let_def)

text \<open>
  Claim C4 as stated fails in variant A for boxes that only touch: the bottom edge of the
  obstacle (300) is the top edge of the player, on the same wall, and the game goes on.
\<close>

theorem edge_touch_is_no_collision_counterexample:
  "\<not> isJumping ((initialState 630)\<lparr> obstacles :=
       [\<lparr> ob_x = 0, ob_y = 200, ob_width = 80, ob_height = 80, ob_isOnLeftWall = True \<rparr>] \<rparr>) \<and>
   gameLoop 800 630 (1 / 10) (7 / 10) ((initialState 630)\<lparr> obstacles :=
       [\<lparr> ob_x = 0, ob_y = 200, ob_width = 80, ob_height = 80, ob_isOnLeftWall = True \<rparr>] \<rparr>) =
     \<lparr> playerX = 40, playerY = 300, playerSize = 30, wallWidth = 30, speed = 150,
       isOnLeftWall = True, isJumping = False, jumpProgress = 0, timeElapsed = 1 / 10,
       isGameOver = False,
       obstacles = [\<lparr> ob_x = 0, ob_y = 220, ob_width = 80, ob_height = 80, ob_isOnLeftWall = True \<rparr>],
       lastObstacleTime = 0 \<rparr> \<and>
   boxesTouch 40 300 30
     \<lparr> ob_x = 0, ob_y = 220, ob_width = 80, ob_height = 80, ob_isOnLeftWall = True \<rparr> \<and>
   \<not> boxesOverlap 40 300 30
     \<lparr> ob_x = 0, ob_y = 220, ob_width = 80, ob_height = 80, ob_isOnLeftWall = True \<rparr>"
  by (simp add: initialState_def gameLoop_def
      newX_def newY_def newIsOnLeftWall_def newIsJumping_def newJumpProgress_def wallX_def
      inWhiteLine_def spawned_def spawnDue_def obstacleSpawnRate_def
      moveObstacles_def boxesOverlap_def boxesTouch_def Let_def)

section \<open>The spawn interval\<close>

text \<open>
  Claim C5. The spawn interval is \<open>max 0.3 (1.5 - t * 0.1)\<close> of the elapsed time \<open>t\<close>
  after the frame: it does not increase with \<open>t\<close>, is 1.5 at 0, 0.3 at 12 and 0.3 from
  there on. When the elapsed time after the frame minus the last spawn time exceeds it,
  exactly one obstacle is appended (it moves with the others in the same frame, and is
  removed at once only if that move takes it past the lower bound) and the last spawn time
  becomes the elapsed time; otherwise no obstacle is added and the spawn time is kept.
\<close>

theorem spawn_interval_schedule:
  "obstacleSpawnRate t = max 0.3 (1.5 - t * 0.1) \<and>
   (t1 \<le> t2 \<longrightarrow> obstacleSpawnRate t2 \<le> obstacleSpawnRate t1) \<and>
   obstacleSpawnRate 0 = 1.5 \<and> obstacleSpawnRate 12 = 0.3 \<and>
   (12 \<le> t \<longrightarrow> obstacleSpawnRate t = 0.3) \<and>
   (\<not> isGameOver prev \<longrightarrow>
      (if timeElapsed (gameLoop W H dt rnd prev) - lastObstacleTime prev
            > obstacleSpawnRate (timeElapsed (gameLoop W H dt rnd prev))
       then obstacles (gameLoop W H dt rnd prev) =
              moveObstacles H dt (obstacles prev) @ moveObstacles H dt [newObstacle W rnd] \<and>
            moveObstacles H dt [newObstacle W rnd] =
              (if - 80 + 200 * dt < H + 100
               then [(newObstacle W rnd)\<lparr> ob_y := - 80 + 200 * dt \<rparr>] else []) \<and>
            lastObstacleTime (gameLoop W H dt rnd prev) = timeElapsed (gameLoop W H dt rnd prev)
       else obstacles (gameLoop W H dt rnd prev) = moveObstacles H dt (obstacles prev) \<and>
            lastObstacleTime (gameLoop W H dt rnd prev) = lastObstacleTime prev))"
proof -
  have mono: "t1 \<le> t2 \<longrightarrow> obstacleSpawnRate t2 \<le> obstacleSpawnRate t1"
    by (auto simp: obstacleSpawnRate_def max_def)
  have vals: "obstacleSpawnRate 0 = 1.5 \<and> obstacleSpawnRate 12 = 0.3"
    by (simp add: obstacleSpawnRate_def)
  have floor: "12 \<le> t \<longrightarrow> obstacleSpawnRate t = 0.3"
    by (auto simp: obstacleSpawnRate_def max_def)
  have sp: "\<not> isGameOver prev \<longrightarrow>
      (if timeElapsed (gameLoop W H dt rnd prev) - lastObstacleTime prev
            > obstacleSpawnRate (timeElapsed (gameLoop W H dt rnd prev))
       then obstacles (gameLoop W H dt rnd prev) =
              moveObstacles H dt (obstacles prev) @ moveObstacles H dt [newObstacle W rnd] \<and>
            moveObstacles H dt [newObstacle W rnd] =
              (if - 80 + 200 * dt < H + 100
               then [(newObstacle W rnd)\<lparr> ob_y := - 80 + 200 * dt \<rparr>] else []) \<and>
            lastObstacleTime (gameLoop W H dt rnd prev) = timeElapsed (gameLoop W H dt rnd prev)
       else obstacles (gameLoop W H dt rnd prev) = moveObstacles H dt (obstacles prev) \<and>
            lastObstacleTime (gameLoop W H dt rnd prev) = lastObstacleTime prev)"
    by (simp add: gameLoop_fields spawned_def spawnDue_def moveObstacles_append moveObstacles_new)
  from mono vals floor sp show ?thesis
    by (simp add: obstacleSpawnRate_def)
qed

text \<open>The first spawn of a run: a frame of 1.4 s exceeds the interval 1.36.\<close>

theorem spawn_interval_schedule_witness:
  "(3::real) \<le> 20 \<and> obstacleSpawnRate 20 \<le> obstacleSpawnRate 3 \<and>
   obstacleSpawnRate 3 = 6 / 5 \<and> (12::real) \<le> 20 \<and> obstacleSpawnRate 20 = 3 / 10 \<and>
   \<not> isGameOver (initialState 600) \<and>
   timeElapsed (gameLoop 800 600 (7 / 5) (7 / 10) (initialState 600)) - lastObstacleTime (initialState 600)
     > obstacleSpawnRate (timeElapsed (gameLoop 800 600 (7 / 5) (7 / 10) (initialState 600))) \<and>
   obstacles (gameLoop 800 600 (7 / 5) (7 / 10) (initialState 600)) =
     [\<lparr> ob_x = 720, ob_y = 200, ob_width = 80, ob_height = 80, ob_isOnLeftWall = False \<rparr>] \<and>
   lastObstacleTime (gameLoop 800 600 (7 / 5) (7 / 10) (initialState 600)) = 7 / 5"
  using spawn_interval_schedule
    [where ?t1.0 = 3 and ?t2.0 = 20 and t = 20 and prev = "initialState 600"
       and W = 800 and H = 600 and dt = "7 / 5" and rnd = "7 / 10"]
  by (simp add: initialState_def obstacleSpawnRate_def gameLoop_def newObstacle_def
      moveObstacles_def spawned_def spawnDue_def Let_def)

section \<open>Fresh jumps from the left wall\<close>

text \<open>
  Claim C6. A jump started with the jump command from rest on the left wall should resolve
  on the right wall, at \<open>innerWidth - wallWidth - 10 - playerSize\<close>. In a window 200 wide
  the resting player's centre (55) is inside the band \<open>[50, 150]\<close> that the frame update
  tests, so a jump that resolves within its first frame (0.2 s) is taken for a return jump:
  the player stays on the left wall at 40 instead of landing at 130.
\<close>

theorem fresh_jump_stays_on_left_wall:
  "current (run [Tick 200 600 0 (7 / 10)] (mount 600)) =
     \<lparr> playerX = 40, playerY = 285, playerSize = 30, wallWidth = 30, speed = 150,
       isOnLeftWall = True, isJumping = False, jumpProgress = 0, timeElapsed = 0,
       isGameOver = False, obstacles = [], lastObstacleTime = 0 \<rparr> \<and>
   current (run [Tick 200 600 0 (7 / 10), KeyDown 200] (mount 600)) =
     jump
     \<lparr> playerX = 40, playerY = 285, playerSize = 30, wallWidth = 30, speed = 150,
       isOnLeftWall = True, isJumping = False, jumpProgress = 0, timeElapsed = 0,
       isGameOver = False, obstacles = [], lastObstacleTime = 0 \<rparr> \<and>
   current (run [Tick 200 600 0 (7 / 10), KeyDown 200, Tick 200 600 (1 / 5) (7 / 10)]
              (mount 600)) =
     \<lparr> playerX = 40, playerY = 285, playerSize = 30, wallWidth = 30, speed = 150,
       isOnLeftWall = True, isJumping = False, jumpProgress = 1, timeElapsed = 1 / 5,
       isGameOver = False, obstacles = [], lastObstacleTime = 0 \<rparr> \<and>
   wallX 200 (initialState 600) False = 130"
  by (simp add: mount_def apply_event_def render_def initialState_def gameLoop_def
      handleKeyDown_def jump_def newX_def newY_def
      newIsOnLeftWall_def newIsJumping_def
      newJumpProgress_def wallX_def inWhiteLine_def spawned_def spawnDue_def obstacleSpawnRate_def
      moveObstacles_def Let_def)

section \<open>Restart\<close>

text \<open>
  Claim C7. Restart should replace the state by the constants of the run's start. It does
  reset the elapsed time, the game-over flag, the obstacles and the player's position, but
  it sets \<open>wallWidth\<close> to 40 where the initial state has 30, so the state after a restart
  is never the initial state.
\<close>

theorem restart_wallWidth_differs_from_initial:
  "timeElapsed (restartGame H s) = 0 \<and> \<not> isGameOver (restartGame H s) \<and>
   obstacles (restartGame H s) = [] \<and>
   playerX (restartGame H s) = playerX (initialState H) \<and>
   playerY (restartGame H s) = playerY (initialState H) \<and>
   wallWidth (initialState H) = 30 \<and> wallWidth (restartGame H s) = 40 \<and>
   restartGame H s \<noteq> initialState H"
  by (simp add: restartGame_def initialState_def)

section \<open>The range of the jump progress\<close>

text \<open>
  Claim C8, as amended. In every state reached from the initial state by frames with a
  nonnegative delta time, key presses, clicks and restarts, \<open>jumpProgress\<close> is at least 0,
  and it is below 1 whenever \<open>isJumping\<close> holds; both jump commands reset it to 0. The
  value that completes a jump is stored as it is, without a clamp at 1.
\<close>

theorem jumpProgress_invariant:
  assumes "list_all valid_event evs"
  shows "0 \<le> jumpProgress (current (run evs (mount H))) \<and>
         (isJumping (current (run evs (mount H))) \<longrightarrow>
            jumpProgress (current (run evs (mount H))) < 1) \<and>
         jumpProgress (jump (current (run evs (mount H)))) = 0 \<and>
         jumpProgress (returnToSameWall (current (run evs (mount H)))) = 0"
proof -
  have "progress_ok (current (mount H))"
    by (simp add: progress_ok_def mount_def initialState_def)
  with assms have "progress_ok (current (run evs (mount H)))" by (rule progress_ok_run)
  then show ?thesis by (simp add: progress_ok_def jump_def returnToSameWall_def)
qed

text \<open>A key press and one frame of 0.1 s: in the air with progress 0.5.\<close>

theorem jumpProgress_invariant_witness:
  "list_all valid_event [KeyDown 800, Tick 800 600 (1 / 10) (7 / 10)] \<and>
   0 \<le> jumpProgress (current (run [KeyDown 800, Tick 800 600 (1 / 10) (7 / 10)] (mount 600))) \<and>
   isJumping (current (run [KeyDown 800, Tick 800 600 (1 / 10) (7 / 10)] (mount 600))) \<and>
   jumpProgress (current (run [KeyDown 800, Tick 800 600 (1 / 10) (7 / 10)] (mount 600))) = 1 / 2"
  using jumpProgress_invariant [of "[KeyDown 800, Tick 800 600 (1 / 10) (7 / 10)]" 600]
  by (simp add: mount_def apply_event_def render_def initialState_def gameLoop_def
      handleKeyDown_def jump_def newIsJumping_def newJumpProgress_def)

text \<open>
  Claim C8 as stated fails: a jump followed by one frame of 0.3 s leaves
  \<open>jumpProgress = 1.5\<close>.
\<close>

theorem jumpProgress_exceeds_one_counterexample:
  "valid_event (KeyDown 800) \<and> valid_event (Tick 800 600 (3 / 10) (7 / 10)) \<and>
   jumpProgress (current (run [KeyDown 800, Tick 800 600 (3 / 10) (7 / 10)] (mount 600))) = 3 / 2 \<and>
   \<not> jumpProgress (current (run [KeyDown 800, Tick 800 600 (3 / 10) (7 / 10)] (mount 600))) \<le> 1"
  by (simp add: mount_def apply_event_def render_def initialState_def gameLoop_def
      handleKeyDown_def jump_def newJumpProgress_def)

section \<open>Elapsed time\<close>

text \<open>
  Claim C9, as amended. In all three variants the update of a state that is not game over
  adds exactly \<open>deltaTime\<close> to \<open>timeElapsed\<close>; the increase is strict exactly when
  \<open>deltaTime\<close> is positive.
\<close>

theorem elapsed_time_advances:
  assumes "\<not> isGameOver prev" and "\<not> isGameOver c"
  shows "timeElapsed (gameLoop W H dt rnd prev) = timeElapsed prev + dt \<and>
         timeElapsed (gameLoop_b W H dt rnd prev) = timeElapsed prev + dt \<and>
         timeElapsed (gameLoop_c W dt c) = timeElapsed c + dt \<and>
         (timeElapsed prev < timeElapsed (gameLoop W H dt rnd prev) \<longleftrightarrow> 0 < dt) \<and>
         (timeElapsed prev < timeElapsed (gameLoop_b W H dt rnd prev) \<longleftrightarrow> 0 < dt) \<and>
         (timeElapsed c < timeElapsed (gameLoop_c W dt c) \<longleftrightarrow> 0 < dt)"
  using assms by (simp add: gameLoop_fields gameLoop_b_fields gameLoop_c_def)

text \<open>One frame of a sixtieth of a second from the initial states.\<close>

theorem elapsed_time_advances_witness:
  "\<not> isGameOver (initialState 600) \<and> \<not> isGameOver (initialState_c 600) \<and>
   timeElapsed (gameLoop 800 600 (1 / 60) (7 / 10) (initialState 600)) = 1 / 60 \<and>
   timeElapsed (gameLoop_b 800 600 (1 / 60) (7 / 10) (initialState 600)) = 1 / 60 \<and>
   timeElapsed (gameLoop_c 800 (1 / 60) (initialState_c 600)) = 1 / 60"
  using elapsed_time_advances [where prev = "initialState 600" and c = "initialState_c 600"
      and W = 800 and H = 600 and dt = "1 / 60" and rnd = "7 / 10"]
  by (simp add: initialState_def initialState_c_def)

text \<open>
  Claim C9 as stated fails at \<open>deltaTime = 0\<close>, the delta of the first frame: the elapsed
  time does not strictly increase.
\<close>

theorem elapsed_time_zero_delta_counterexample:
  "\<not> isGameOver (initialState 600) \<and> (0::real) \<ge> 0 \<and>
   \<not> (timeElapsed (initialState 600) < timeElapsed (gameLoop 800 600 0 0.7 (initialState 600)))"
  by (simp add: gameLoop_def initialState_def)

section \<open>No collision while jumping\<close>

text \<open>
  Claim C10. In variant A, a frame that starts with \<open>isJumping\<close> never sets
  \<open>isGameOver\<close>, whatever the obstacles are.
\<close>

theorem jumping_player_never_collides:
  "isJumping prev \<Longrightarrow> \<not> isGameOver prev \<Longrightarrow> \<not> isGameOver (gameLoop W H dt rnd prev)"
  by (simp add: gameLoop_fields checkCollisions_iff)

text \<open>
  A player in the air whose box overlaps an obstacle of its own wall after the frame: the
  game goes on.
\<close>

theorem jumping_player_never_collides_witness:
  "isJumping ((initialState 600)\<lparr> playerX := 40, isJumping := True,
       obstacles := [\<lparr> ob_x = 0, ob_y = 270, ob_width = 80, ob_height = 80, ob_isOnLeftWall = True \<rparr>] \<rparr>) \<and>
   \<not> isGameOver ((initialState 600)\<lparr> playerX := 40, isJumping := True,
       obstacles := [\<lparr> ob_x = 0, ob_y = 270, ob_width = 80, ob_height = 80, ob_isOnLeftWall = True \<rparr>] \<rparr>) \<and>
   boxesOverlap (149 / 2) 285 30 \<lparr> ob_x = 0, ob_y = 272, ob_width = 80, ob_height = 80, ob_isOnLeftWall = True \<rparr> \<and>
   gameLoop 800 600 (1 / 100) (7 / 10) ((initialState 600)\<lparr> playerX := 40, isJumping := True,
       obstacles := [\<lparr> ob_x = 0, ob_y = 270, ob_width = 80, ob_height = 80, ob_isOnLeftWall = True \<rparr>] \<rparr>)
   = \<lparr> playerX = 149 / 2, playerY = 285, playerSize = 30, wallWidth = 30, speed = 150,
       isOnLeftWall = True, isJumping = True, jumpProgress = 1 / 20, timeElapsed = 1 / 100,
       isGameOver = False,
       obstacles = [\<lparr> ob_x = 0, ob_y = 272, ob_width = 80, ob_height = 80, ob_isOnLeftWall = True \<rparr>],
       lastObstacleTime = 0 \<rparr>"
  using jumping_player_never_collides [of "(initialState 600)\<lparr> playerX := 40, isJumping := True,
       obstacles := [\<lparr> ob_x = 0, ob_y = 270, ob_width = 80, ob_height = 80, ob_isOnLeftWall = True \<rparr>] \<rparr>"
       800 600 "1 / 100" "7 / 10"]
  by (simp add: initialState_def gameLoop_def newX_def newY_def newIsOnLeftWall_def newIsJumping_def
      newJumpProgress_def wallX_def inWhiteLine_def spawned_def spawnDue_def obstacleSpawnRate_def
      moveObstacles_def boxesOverlap_def Let_def)

end
